theory Spec2Isabelle
  imports Main "HOL-Library.Sublist"
begin

section \<open>The nano-service discovery script\<close>

text \<open>
  A shallow embedding of \<^verbatim>\<open>scripts/discover_nano_services.py\<close>. The script reads a
  README, asks the GitHub search API a fixed list of queries, refreshes the star column
  of the rows it already lists, appends rows for repositories it does not list yet, sorts
  all rows by stars and writes the README back.

  Python's \<^verbatim>\<open>str\<close> is a sequence of code points. Here a text is a \<open>string\<close>, and a
  \<open>char\<close> stands for the code point with the same number, so the texts covered are
  those whose code points lie below 256; the character classes below (white space,
  lower case, the regular expression's \<^verbatim>\<open>\w\<close>) are Python's on that range.
  Printing and the one-second pause after each query have no effect on any value and
  are left out.
\<close>

subsection \<open>Errors\<close>

datatype py_error =
    ValueError
  | IndexError
  | HTTPError int
  | JSONDecodeError
  | AttributeError
  | ConnectionError

subsection \<open>Built-in string operations\<close>

definition code :: "char \<Rightarrow> nat" where
  "code c = of_char c"

text \<open>\<^verbatim>\<open>str.isspace\<close> on one character, the set \<^verbatim>\<open>str.strip()\<close> removes.\<close>

definition is_space :: "char \<Rightarrow> bool" where
  "is_space c = (let n = code c in
     (9 \<le> n \<and> n \<le> 13) \<or> (28 \<le> n \<and> n \<le> 32) \<or> n = 133 \<or> n = 160)"

definition str_strip :: "string \<Rightarrow> string" where
  "str_strip s = rev (dropWhile is_space (rev (dropWhile is_space s)))"

text \<open>\<^verbatim>\<open>s.rstrip("/")\<close>: every trailing slash goes.\<close>

definition rstrip_slash :: "string \<Rightarrow> string" where
  "rstrip_slash s = rev (dropWhile (\<lambda>c. c = CHR ''/'') (rev s))"

text \<open>\<^verbatim>\<open>str.lower\<close>: the letters A-Z and the upper-case letters of U+00C0-U+00DE
  (all of that block but the multiplication sign U+00D7) move up by 32.\<close>

definition lower_char :: "char \<Rightarrow> char" where
  "lower_char c = (let n = code c in
     if (65 \<le> n \<and> n \<le> 90) \<or> (192 \<le> n \<and> n \<le> 222 \<and> n \<noteq> 215)
     then char_of (n + 32) else c)"

definition str_lower :: "string \<Rightarrow> string" where
  "str_lower s = map lower_char s"

text \<open>\<^verbatim>\<open>s.replace(c, r)\<close> for a one-character \<^verbatim>\<open>c\<close>.\<close>

definition str_replace :: "char \<Rightarrow> string \<Rightarrow> string \<Rightarrow> string" where
  "str_replace c r s = concat (map (\<lambda>x. if x = c then r else [x]) s)"

text \<open>\<^verbatim>\<open>s.split(c)\<close> for a one-character separator: never the empty list.\<close>

fun str_split :: "char \<Rightarrow> string \<Rightarrow> string list" where
  "str_split c [] = [[]]"
| "str_split c (x # xs) =
     (if x = c then [] # str_split c xs
      else (case str_split c xs of [] \<Rightarrow> [[x]] | p # ps \<Rightarrow> (x # p) # ps))"

text \<open>\<^verbatim>\<open>sep.join(parts)\<close>.\<close>

fun str_join :: "string \<Rightarrow> string list \<Rightarrow> string" where
  "str_join sep [] = []"
| "str_join sep [p] = p"
| "str_join sep (p # q # ps) = p @ sep @ str_join sep (q # ps)"

text \<open>\<^verbatim>\<open>s.find(sub)\<close>: the index of the first occurrence, or \<open>-1\<close>.\<close>

fun str_find :: "string \<Rightarrow> string \<Rightarrow> int" where
  "str_find [] sub = (if sub = [] then 0 else - 1)"
| "str_find (x # xs) sub =
     (if prefix sub (x # xs) then 0
      else (let r = str_find xs sub in if r < 0 then - 1 else r + 1))"

text \<open>Slices \<^verbatim>\<open>s[:j]\<close>, \<^verbatim>\<open>s[i:]\<close> and \<^verbatim>\<open>s[i:j]\<close>: a negative index counts from the
  end, and every index is clamped to the text.\<close>

definition slice_index :: "nat \<Rightarrow> int \<Rightarrow> nat" where
  "slice_index n i = (if i < 0 then nat (max 0 (int n + i)) else min n (nat i))"

definition slice_to :: "string \<Rightarrow> int \<Rightarrow> string" where
  "slice_to s j = take (slice_index (length s) j) s"

definition slice_from :: "string \<Rightarrow> int \<Rightarrow> string" where
  "slice_from s i = drop (slice_index (length s) i) s"

definition slice :: "string \<Rightarrow> int \<Rightarrow> int \<Rightarrow> string" where
  "slice s i j = drop (slice_index (length s) i) (take (slice_index (length s) j) s)"

text \<open>\<^verbatim>\<open>xs[i]\<close> for a non-negative index, with its \<^verbatim>\<open>IndexError\<close>.\<close>

definition getitem :: "'a list \<Rightarrow> nat \<Rightarrow> py_error + 'a" where
  "getitem xs i = (if i < length xs then Inr (xs ! i) else Inl IndexError)"

subsection \<open>Integers and their decimal text\<close>

definition is_digit :: "char \<Rightarrow> bool" where
  "is_digit c = (48 \<le> code c \<and> code c \<le> 57)"

definition digit_val :: "char \<Rightarrow> nat" where
  "digit_val c = code c - 48"

definition digit_char :: "nat \<Rightarrow> char" where
  "digit_char d = char_of (48 + d)"

fun str_nat :: "nat \<Rightarrow> string" where
  "str_nat n = (if n < 10 then [digit_char n] else str_nat (n div 10) @ [digit_char (n mod 10)])"

declare str_nat.simps [simp del]

text \<open>\<^verbatim>\<open>str(n)\<close>, which is also what an f-string writes for an integer.\<close>

definition str_int :: "int \<Rightarrow> string" where
  "str_int i = (if i < 0 then CHR ''-'' # str_nat (nat (- i)) else str_nat (nat i))"

text \<open>
  \<^verbatim>\<open>int(s)\<close> in base ten. The interpreter skips white space at both ends (the ASCII
  white space, and the two non-ASCII spaces of the range, which it first rewrites to a
  blank; the separators U+001C-U+001F are white space for \<^verbatim>\<open>strip\<close> but not here),
  takes one optional sign, then wants digits, where single underscores may stand between
  two digits. More digits than \<open>int_max_str_digits\<close> (CPython's default of 4300) are
  refused. Everything else is a \<^verbatim>\<open>ValueError\<close>.
\<close>

definition is_int_space :: "char \<Rightarrow> bool" where
  "is_int_space c = (let n = code c in (9 \<le> n \<and> n \<le> 13) \<or> n = 32 \<or> n = 133 \<or> n = 160)"

definition int_max_str_digits :: nat where
  "int_max_str_digits = 4300"

fun scan_digits :: "bool \<Rightarrow> string \<Rightarrow> nat \<Rightarrow> nat option" where
  "scan_digits prev_us [] acc = (if prev_us then None else Some acc)"
| "scan_digits prev_us (c # cs) acc =
     (if c = CHR ''_'' then (if prev_us then None else scan_digits True cs acc)
      else if is_digit c then scan_digits False cs (acc * 10 + digit_val c)
      else None)"

definition parse_digits :: "string \<Rightarrow> nat option" where
  "parse_digits ds =
     (if ds = [] \<or> hd ds = CHR ''_'' then None
      else if int_max_str_digits < length (filter is_digit ds) then None
      else scan_digits False ds 0)"

definition py_int :: "string \<Rightarrow> py_error + int" where
  "py_int s =
     (let t = rev (dropWhile is_int_space (rev (dropWhile is_int_space s)));
          neg = (t \<noteq> [] \<and> hd t = CHR ''-'');
          ds = (if t \<noteq> [] \<and> (hd t = CHR ''-'' \<or> hd t = CHR ''+'') then tl t else t)
      in case parse_digits ds of
           None \<Rightarrow> Inl ValueError
         | Some n \<Rightarrow> Inr (if neg then - int n else int n))"

subsection \<open>Constants\<close>

definition MARKER_START :: string where
  "MARKER_START = ''<!-- NANO_LIST_START -->''"

definition MARKER_END :: string where
  "MARKER_END = ''<!-- NANO_LIST_END -->''"

definition MIN_STARS :: int where
  "MIN_STARS = 1000"

definition SEARCH_QUERIES :: "string list" where
  "SEARCH_QUERIES =
     [''nano in:name topic:ai'',
      ''nano in:name topic:machine-learning'',
      ''nano in:name topic:llm'',
      ''nano in:name topic:deep-learning'',
      ''nano in:name topic:gpt'',
      ''nano in:name topic:chatbot'',
      ''nano in:name topic:nlp'',
      ''nano in:name topic:agent'',
      ''nano in:name topic:neural-network'',
      ''nano in:name topic:transformer'',
      ''nanoGPT'',
      ''nanochat'',
      ''nanobot'',
      ''nanobrowser'',
      ''nanocoder'',
      ''nanoflow'',
      ''nanotron'']"

definition newline :: char where
  "newline = CHR 0x0A"

subsection \<open>Repositories and the search request\<close>

text \<open>The fields of a search result the script reads. A JSON \<^verbatim>\<open>null\<close> description is
  \<open>None\<close>.\<close>

record repo =
  name :: string
  full_name :: string
  html_url :: string
  description :: "string option"
  stargazers_count :: int
  fork :: bool
  archived :: bool

text \<open>
  What \<^verbatim>\<open>requests.get\<close> gives back: a status code and a body. The body is not JSON
  (\<^verbatim>\<open>resp.json()\<close> raises), JSON that is no object (\<^verbatim>\<open>.get\<close> raises), or an object
  with or without the key \<^verbatim>\<open>items\<close>. The network is a function from the \<^verbatim>\<open>q\<close>
  parameter of the request to the outcome of the call, which may itself be an error.
\<close>

datatype json_body = NotJson | JsonNonObject | JsonObject "repo list option"

record response =
  status_code :: int
  body :: json_body

type_synonym http = "string \<Rightarrow> py_error + response"

text \<open>\<^verbatim>\<open>Response.raise_for_status\<close> of the requests library raises for the client and
  server error codes, 400 to 599, and for no other.\<close>

definition raise_for_status :: "response \<Rightarrow> py_error + unit" where
  "raise_for_status resp =
     (if 400 \<le> status_code resp \<and> status_code resp < 600
      then Inl (HTTPError (status_code resp)) else Inr ())"

definition search_repos :: "http \<Rightarrow> string \<Rightarrow> py_error + repo list" where
  "search_repos get query =
     (case get (query @ '' stars:>='' @ str_int MIN_STARS) of
        Inl e \<Rightarrow> Inl e
      | Inr resp \<Rightarrow>
          if status_code resp = 403 then Inr []
          else (case raise_for_status resp of
                  Inl e \<Rightarrow> Inl e
                | Inr u \<Rightarrow>
                    (case body resp of
                       NotJson \<Rightarrow> Inl JSONDecodeError
                     | JsonNonObject \<Rightarrow> Inl AttributeError
                     | JsonObject None \<Rightarrow> Inr []
                     | JsonObject (Some items) \<Rightarrow> Inr items)))"

subsection \<open>The regular expression\<close>

text \<open>
  \<^verbatim>\<open>https://github\.com/[\w\-\.]+/[\w\-\.]+\<close>. The slash is not in the character class,
  so each greedy \<^verbatim>\<open>+\<close> takes the whole run of class characters and backtracking
  never finds another match: a match at a position is the literal prefix, a non-empty
  run, a slash and a second non-empty run.
\<close>

definition is_word :: "char \<Rightarrow> bool" where
  "is_word c = (let n = code c in
     (48 \<le> n \<and> n \<le> 57) \<or> (65 \<le> n \<and> n \<le> 90) \<or> n = 95 \<or> (97 \<le> n \<and> n \<le> 122) \<or>
     n = 170 \<or> n = 178 \<or> n = 179 \<or> n = 181 \<or> n = 185 \<or> n = 186 \<or>
     (188 \<le> n \<and> n \<le> 190) \<or> (192 \<le> n \<and> n \<le> 214) \<or> (216 \<le> n \<and> n \<le> 246) \<or>
     (248 \<le> n \<and> n \<le> 255))"

definition url_char :: "char \<Rightarrow> bool" where
  "url_char c = (is_word c \<or> c = CHR ''-'' \<or> c = CHR ''.'')"

definition url_prefix :: string where
  "url_prefix = ''https://github.com/''"

text \<open>The match that starts at the first character of the text, if there is one.\<close>

definition match_url :: "string \<Rightarrow> string option" where
  "match_url s =
     (if prefix url_prefix s then
        (let r = drop (length url_prefix) s;
             owner = takeWhile url_char r;
             r' = dropWhile url_char r
         in if owner \<noteq> [] \<and> r' \<noteq> [] \<and> hd r' = CHR ''/'' then
              (let rname = takeWhile url_char (tl r')
               in if rname \<noteq> [] then Some (url_prefix @ owner @ CHR ''/'' # rname) else None)
            else None)
      else None)"

text \<open>\<^verbatim>\<open>re.search\<close>: the leftmost match.\<close>

fun re_search :: "string \<Rightarrow> string option" where
  "re_search [] = match_url []"
| "re_search (x # xs) =
     (case match_url (x # xs) of Some m \<Rightarrow> Some m | None \<Rightarrow> re_search xs)"

text \<open>\<^verbatim>\<open>pattern.finditer\<close>: the matches from left to right, the scan going on behind
  each match. The first argument counts the characters of the last match still to be
  skipped.\<close>

fun finditer_skip :: "nat \<Rightarrow> string \<Rightarrow> string list" where
  "finditer_skip k [] = []"
| "finditer_skip (Suc k) (x # xs) = finditer_skip k xs"
| "finditer_skip 0 (x # xs) =
     (case match_url (x # xs) of
        Some m \<Rightarrow> m # finditer_skip (length m - 1) xs
      | None \<Rightarrow> finditer_skip 0 xs)"

definition finditer :: "string \<Rightarrow> string list" where
  "finditer s = finditer_skip 0 s"

text \<open>The key under which a repository URL is compared: \<^verbatim>\<open>.lower().rstrip("/")\<close>.\<close>

definition canonical_url :: "string \<Rightarrow> string" where
  "canonical_url u = rstrip_slash (str_lower u)"

subsection \<open>Reading the README\<close>

definition parse_existing_entries :: "string \<Rightarrow> string set" where
  "parse_existing_entries readme_content =
     (let start_idx = str_find readme_content MARKER_START;
          end_idx = str_find readme_content MARKER_END
      in if start_idx = - 1 \<or> end_idx = - 1 then {}
         else canonical_url ` set (finditer (slice readme_content start_idx end_idx)))"

definition is_row_line :: "string \<Rightarrow> bool" where
  "is_row_line line =
     (\<not> (prefix ''| Name'' line \<or> prefix ''|---'' line \<or> \<not> prefix ''|'' line))"

definition parse_table_rows :: "string \<Rightarrow> string list" where
  "parse_table_rows readme_content =
     (let start_idx = str_find readme_content MARKER_START;
          end_idx = str_find readme_content MARKER_END
      in if start_idx = - 1 \<or> end_idx = - 1 then []
         else
           (let section = str_strip (slice readme_content (start_idx + int (length MARKER_START)) end_idx);
                lines = str_split newline section
            in filter is_row_line (map str_strip lines)))"

subsection \<open>Table rows\<close>

text \<open>The description as \<^verbatim>\<open>build_table_row\<close> writes it (lines 80 to 82).\<close>

definition row_description :: "repo \<Rightarrow> string" where
  "row_description r =
     (let d = str_strip (str_replace CHR ''|'' ''-''
                (case description r of None \<Rightarrow> [] | Some d \<Rightarrow> d))
      in if 100 < length d then take 97 d @ ''...'' else d)"

definition build_table_row :: "repo \<Rightarrow> string" where
  "build_table_row r =
     ''| ['' @ name r @ '']('' @ html_url r @ '') | '' @ row_description r @ '' | '' @
     str_int (stargazers_count r) @ '' |''"

text \<open>
  \<^verbatim>\<open>extract_stars_from_row\<close>: the sort key of a row. Only the \<^verbatim>\<open>ValueError\<close> of
  \<^verbatim>\<open>int\<close> is caught; any other error would leave the function.
\<close>

definition extract_stars_from_row :: "string \<Rightarrow> py_error + int" where
  "extract_stars_from_row row =
     (let parts = str_split CHR ''|'' row in
      if 4 \<le> length parts then
        (case getitem parts 3 of
           Inl e \<Rightarrow> Inl e
         | Inr p \<Rightarrow>
             (let stars_str = str_replace CHR '','' [] (str_strip p) in
              case py_int stars_str of
                Inr n \<Rightarrow> Inr n
              | Inl e \<Rightarrow> (if e = ValueError then Inr 0 else Inl e)))
      else Inr 0)"

definition update_row_stars :: "string \<Rightarrow> (string \<rightharpoonup> repo) \<Rightarrow> string" where
  "update_row_stars row repos_by_url =
     (case re_search row of
        None \<Rightarrow> row
      | Some m \<Rightarrow>
          (case repos_by_url (canonical_url m) of
             None \<Rightarrow> row
           | Some r \<Rightarrow>
               (let parts = str_split CHR ''|'' row in
                if 5 \<le> length parts
                then str_join ''|'' (parts[3 := '' '' @ str_int (stargazers_count r) @ '' ''])
                else row)))"

subsection \<open>The run\<close>

text \<open>Lines 159 to 162: a repository enters the mapping under its lower-case full name
  unless that key is taken. The mapping keeps the order of insertion.\<close>

fun add_repos :: "(string \<times> repo) list \<Rightarrow> repo list \<Rightarrow> (string \<times> repo) list" where
  "add_repos all_repos [] = all_repos"
| "add_repos all_repos (r # rs) =
     (let fn = str_lower (full_name r) in
      add_repos (if map_of all_repos fn = None then all_repos @ [(fn, r)] else all_repos) rs)"

text \<open>Lines 156 to 164: one request per query; an error of a request ends the run.\<close>

fun search_all :: "http \<Rightarrow> string list \<Rightarrow> (string \<times> repo) list \<Rightarrow> py_error + (string \<times> repo) list" where
  "search_all get [] all_repos = Inr all_repos"
| "search_all get (query # queries) all_repos =
     (case search_repos get query of
        Inl e \<Rightarrow> Inl e
      | Inr repos \<Rightarrow> search_all get queries (add_repos all_repos repos))"

text \<open>Lines 171 to 180, with \<^verbatim>\<open>new_repos\<close> and \<^verbatim>\<open>repos_by_url\<close> as accumulators.\<close>

fun filter_repos ::
  "string set \<Rightarrow> (string \<times> repo) list \<Rightarrow> repo list \<Rightarrow> (string \<rightharpoonup> repo) \<Rightarrow> repo list \<times> (string \<rightharpoonup> repo)" where
  "filter_repos existing_urls [] new_repos repos_by_url = (new_repos, repos_by_url)"
| "filter_repos existing_urls ((fn, r) # rest) new_repos repos_by_url =
     (let url = canonical_url (html_url r);
          repos_by_url = repos_by_url(url \<mapsto> r)
      in if fork r then filter_repos existing_urls rest new_repos repos_by_url
         else if archived r then filter_repos existing_urls rest new_repos repos_by_url
         else if url \<in> existing_urls then filter_repos existing_urls rest new_repos repos_by_url
         else filter_repos existing_urls rest (new_repos @ [r]) repos_by_url)"

text \<open>
  \<^verbatim>\<open>list.sort(key=..., reverse=True)\<close> computes every key first (an error of a key
  leaves the sort), then sorts stably into descending order of the keys: elements with
  equal keys keep their order.
\<close>

fun sort_keys :: "string list \<Rightarrow> py_error + int list" where
  "sort_keys [] = Inr []"
| "sort_keys (row # rows) =
     (case extract_stars_from_row row of
        Inl e \<Rightarrow> Inl e
      | Inr k \<Rightarrow> (case sort_keys rows of Inl e \<Rightarrow> Inl e | Inr ks \<Rightarrow> Inr (k # ks)))"

definition sort_rows :: "string list \<Rightarrow> py_error + string list" where
  "sort_rows rows =
     (case sort_keys rows of
        Inl e \<Rightarrow> Inl e
      | Inr ks \<Rightarrow> Inr (map snd (sort_key (\<lambda>p. - fst p) (zip ks rows))))"

definition table_header :: string where
  "table_header =
     ''| Name | Description | Stars |'' @ [newline] @ ''|------|-------------|-------|'' @ [newline]"

definition new_section :: "string list \<Rightarrow> string" where
  "new_section all_rows =
     MARKER_START @ [newline] @ table_header @ str_join [newline] all_rows @ [newline] @ MARKER_END"

text \<open>What a run that reaches its end leaves behind: the text written to the README, the
  repositories added, and the rows of the new section.\<close>

record run =
  new_readme :: string
  new_repos :: "repo list"
  all_rows :: "string list"

definition main :: "http \<Rightarrow> string \<Rightarrow> py_error + run" where
  "main get readme_content =
     (let existing_urls = parse_existing_entries readme_content;
          existing_rows = parse_table_rows readme_content
      in case search_all get SEARCH_QUERIES [] of
           Inl e \<Rightarrow> Inl e
         | Inr all_repos \<Rightarrow>
             (let (unsorted, repos_by_url) = filter_repos existing_urls all_repos [] Map.empty;
                  new = sort_key (\<lambda>r. - stargazers_count r) unsorted;
                  updated_rows = map (\<lambda>row. update_row_stars row repos_by_url) existing_rows;
                  new_rows = map build_table_row new
              in case sort_rows (updated_rows @ new_rows) of
                   Inl e \<Rightarrow> Inl e
                 | Inr rows \<Rightarrow>
                     (let start_idx = str_find readme_content MARKER_START;
                          end_idx = str_find readme_content MARKER_END + int (length MARKER_END)
                      in Inr \<lparr>new_readme = slice_to readme_content start_idx @ new_section rows @
                                  slice_from readme_content end_idx,
                              new_repos = new,
                              all_rows = rows\<rparr>)))"

subsection \<open>Notions used in the statements\<close>

text \<open>The test of lines 174 to 179 for a repository that becomes a new row, and the sort key
  of a row as a number (\<^verbatim>\<open>extract_stars_from_row\<close> never raises).\<close>

definition is_new :: "string set \<Rightarrow> repo \<Rightarrow> bool" where
  "is_new existing_urls r = (\<not> fork r \<and> \<not> archived r \<and> canonical_url (html_url r) \<notin> existing_urls)"

definition stars_of :: "string \<Rightarrow> int" where
  "stars_of row = (case extract_stars_from_row row of Inr n \<Rightarrow> n | Inl e \<Rightarrow> 0)"

text \<open>The mapping of lines 155 to 162 has each key once, and each repository under the
  lower case of its full name.\<close>

definition keyed :: "(string \<times> repo) list \<Rightarrow> bool" where
  "keyed all_repos = (distinct (map fst all_repos) \<and> (\<forall>p \<in> set all_repos. fst p = str_lower (full_name (snd p))))"

subsection \<open>Example inputs\<close>

definition padded_repo :: repo where
  "padded_repo = \<lparr>name = ''n'', full_name = ''o/n'', html_url = ''https://github.com/o/n'',
     description = Some (replicate 100 CHR ''a'' @ '' ''), stargazers_count = 1000,
     fork = False, archived = False\<rparr>"

definition long_repo :: repo where
  "long_repo = \<lparr>name = ''n'', full_name = ''o/n'', html_url = ''https://github.com/o/n'',
     description = Some (replicate 60 CHR ''a'' @ ''|'' @ replicate 60 CHR ''b''), stargazers_count = 1000,
     fork = False, archived = False\<rparr>"

definition foo_row :: string where
  "foo_row = ''| [foo](https://github.com/a/foo) | desc | 500 |''"

definition foo :: repo where
  "foo = \<lparr>name = ''foo'', full_name = ''a/foo'', html_url = ''https://github.com/a/foo'',
     description = Some ''new desc'', stargazers_count = 600, fork = False, archived = False\<rparr>"

definition bar :: repo where
  "bar = \<lparr>name = ''bar'', full_name = ''b/bar'', html_url = ''https://github.com/b/bar'',
     description = Some ''bar | desc '', stargazers_count = 700, fork = False, archived = False\<rparr>"

definition example_readme :: string where
  "example_readme = ''# T'' @ [newline] @ MARKER_START @ [newline] @ table_header @ foo_row @ [newline] @ MARKER_END @ [newline] @ ''tail''"

definition example_get :: http where
  "example_get q =
     (if q = ''nanoGPT stars:>=1000'' then Inr \<lparr>status_code = 200, body = JsonObject (Some [bar, foo])\<rparr>
      else if q = ''nanobot stars:>=1000'' then Inr \<lparr>status_code = 403, body = NotJson\<rparr>
      else Inr \<lparr>status_code = 200, body = JsonObject (Some [])\<rparr>)"

definition example_result :: run where
  "example_result =
     \<lparr>new_readme = ''# T'' @ [newline] @ MARKER_START @ [newline] @ table_header @
             ''| [bar](https://github.com/b/bar) | bar - desc | 700 |'' @ [newline] @
             ''| [foo](https://github.com/a/foo) | desc | 600 |'' @ [newline] @ MARKER_END @ [newline] @ ''tail'',
           new_repos = [bar],
           all_rows = [''| [bar](https://github.com/b/bar) | bar - desc | 700 |'',
                       ''| [foo](https://github.com/a/foo) | desc | 600 |'']\<rparr>"


definition no_marker_result :: run where
  "no_marker_result =
     \<lparr>new_readme = ''hell'' @ MARKER_START @ [newline] @ table_header @
             ''| [bar](https://github.com/b/bar) | bar - desc | 700 |'' @ [newline] @
             ''| [foo](https://github.com/a/foo) | new desc | 600 |'' @ [newline] @ MARKER_END,
           new_repos = [bar, foo],
           all_rows = [''| [bar](https://github.com/b/bar) | bar - desc | 700 |'',
                       ''| [foo](https://github.com/a/foo) | new desc | 600 |'']\<rparr>"

definition plain_get :: http where
  "plain_get q =
     (if q = ''nanoGPT stars:>=1000'' then Inr \<lparr>status_code = 200, body = JsonObject (Some [bar, foo])\<rparr>
      else Inr \<lparr>status_code = 200, body = JsonObject (Some [])\<rparr>)"

definition dup_readme :: string where
  "dup_readme = MARKER_START @ [newline] @ table_header @ foo_row @ [newline] @
     ''| [foo](https://github.com/a/foo) | again | 400 |'' @ [newline] @ MARKER_END"


definition dup_result :: run where
  "dup_result =
     \<lparr>new_readme = MARKER_START @ [newline] @ table_header @
         ''| [bar](https://github.com/b/bar) | bar - desc | 700 |'' @ [newline] @
         ''| [foo](https://github.com/a/foo) | desc | 600 |'' @ [newline] @
         ''| [foo](https://github.com/a/foo) | again | 600 |'' @ [newline] @ MARKER_END,
       new_repos = [bar],
       all_rows = [''| [bar](https://github.com/b/bar) | bar - desc | 700 |'',
                   ''| [foo](https://github.com/a/foo) | desc | 600 |'',
                   ''| [foo](https://github.com/a/foo) | again | 600 |'']\<rparr>"




section \<open>Properties\<close>

subsection \<open>Strings\<close>

lemma str_split_not_Nil [simp]: "str_split c s \<noteq> []"
  by (induction s) (auto split: list.splits)

lemma str_split_no_sep: "c \<notin> set s \<Longrightarrow> str_split c s = [s]"
  by (induction s) auto

lemma str_split_append:
  "str_split c (xs @ c # ys) = str_split c xs @ str_split c ys"
  by (induction xs) (auto split: list.splits)

lemma str_split_parts_no_sep: "p \<in> set (str_split c s) \<Longrightarrow> c \<notin> set p"
  by (induction s arbitrary: p) (auto split: if_splits list.splits)

lemma str_join_Cons: "ps \<noteq> [] \<Longrightarrow> str_join sep (p # ps) = p @ sep @ str_join sep ps"
  by (cases ps) auto

lemma str_join_split: "str_join [c] (str_split c s) = s"
proof (induction s)
  case Nil
  then show ?case by simp
next
  case (Cons x s)
  show ?case
  proof (cases "x = c")
    case True
    then show ?thesis using Cons by (simp add: str_join_Cons)
  next
    case False
    obtain p ps where sp: "str_split c s = p # ps"
      using str_split_not_Nil [of c s] by (cases "str_split c s") auto
    show ?thesis using Cons False sp by (cases ps) auto
  qed
qed

lemma str_split_join:
  "ps \<noteq> [] \<Longrightarrow> \<forall>p \<in> set ps. c \<notin> set p \<Longrightarrow> str_split c (str_join [c] ps) = ps"
proof (induction ps)
  case Nil
  then show ?case by simp
next
  case (Cons p ps)
  show ?case
  proof (cases "ps = []")
    case True
    then show ?thesis using Cons.prems by (simp add: str_split_no_sep)
  next
    case False
    then show ?thesis using Cons
      by (simp add: str_join_Cons str_split_append str_split_no_sep)
  qed
qed

lemma set_str_replace: "set (str_replace c r s) \<subseteq> (set s - {c}) \<union> set r"
  by (induction s) (auto simp: str_replace_def)

lemma set_str_strip: "set (str_strip s) \<subseteq> set s"
  unfolding str_strip_def
  by (metis set_dropWhileD set_rev subsetI)

lemma length_str_strip: "length (str_strip s) \<le> length s"
  unfolding str_strip_def
  by (metis length_dropWhile_le length_rev order_trans)

lemma digit_char_not_pipe: "d < 10 \<Longrightarrow> CHR ''|'' \<noteq> digit_char d"
proof
  assume d: "d < 10" and e: "CHR ''|'' = digit_char d"
  then have "of_char (digit_char d) = (of_char (CHR ''|'') :: nat)" by simp
  then show False using d by (simp add: digit_char_def)
qed

lemma str_nat_no_pipe: "CHR ''|'' \<notin> set (str_nat n)"
proof (induction n rule: str_nat.induct)
  case (1 n)
  show ?case
  proof (cases "n < 10")
    case True
    then show ?thesis by (subst str_nat.simps) (simp add: digit_char_not_pipe)
  next
    case False
    then show ?thesis using 1 by (subst str_nat.simps) (simp add: digit_char_not_pipe)
  qed
qed

lemma str_int_no_pipe: "CHR ''|'' \<notin> set (str_int n)"
  by (simp add: str_int_def str_nat_no_pipe)

subsection \<open>Searching\<close>

lemma str_find_ge: "- 1 \<le> str_find s sub"
  by (induction s) (auto simp: Let_def)



lemma str_find_none: "str_find s sub = - 1 \<Longrightarrow> \<not> prefix sub (drop k s)"
proof (induction s arbitrary: k)
  case Nil
  then show ?case by (auto split: if_splits)
next
  case (Cons x s)
  then have np: "\<not> prefix sub (x # s)" and r: "str_find s sub = - 1"
    using str_find_ge [of s sub] by (auto simp: Let_def split: if_splits)
  show ?case
  proof (cases k)
    case 0
    then show ?thesis using np by simp
  next
    case (Suc k')
    then show ?thesis using Cons.IH [OF r, of k'] by simp
  qed
qed

lemma str_find_occurs: "0 \<le> str_find (a @ sub @ b) sub"
proof (induction a)
  case Nil
  have "prefix sub (sub @ b)" by simp
  then show ?case by (cases "sub @ b") (simp_all del: prefixI)
next
  case (Cons x a)
  then show ?case by (auto simp: Let_def)
qed

lemma str_find_cases: "str_find s sub = - 1 \<or> (\<exists>i. str_find s sub = int i)"
proof (cases "str_find s sub < 0")
  case True
  then show ?thesis using str_find_ge [of s sub] by simp
next
  case False
  then have "str_find s sub = int (nat (str_find s sub))" by simp
  then show ?thesis by blast
qed

subsection \<open>Slices\<close>


lemma slice_from_nat: "slice_from s (int i) = drop i s"
  by (simp add: slice_from_def slice_index_def min_def)

lemma slice_to_minus_one: "slice_to s (- 1) = butlast s"
  by (cases s) (simp_all add: slice_to_def slice_index_def butlast_conv_take)




subsection \<open>Rows\<close>

lemma py_int_error: "py_int s = Inl e \<Longrightarrow> e = ValueError"
  by (auto simp: py_int_def Let_def split: option.splits)

text \<open>
  C9. \<^verbatim>\<open>extract_stars_from_row\<close> never raises: on every row it returns a number. The
  number is 0 when the row has fewer than four pipe-separated parts, 0 when
  \<^verbatim>\<open>int\<close> refuses the fourth part (stripped, commas removed), and the parsed integer
  otherwise.
\<close>

theorem extract_stars_from_row_total:
  "extract_stars_from_row row =
     Inr (if length (str_split CHR ''|'' row) < 4 then 0
          else (case py_int (str_replace CHR '','' [] (str_strip (str_split CHR ''|'' row ! 3))) of
                  Inl e \<Rightarrow> 0
                | Inr n \<Rightarrow> n))"
  by (auto simp: extract_stars_from_row_def getitem_def Let_def
      split: sum.splits dest: py_int_error)

theorem extract_stars_from_row_total_witness:
  "extract_stars_from_row ''| a | b | 1,234 |'' = Inr 1234 \<and>
   extract_stars_from_row ''| a | b | many |'' = Inr 0 \<and>
   extract_stars_from_row ''| a | b'' = Inr 0"
proof -
  have "length (str_split CHR ''|'' ''| a | b | 1,234 |'') = 5" by code_simp
  moreover have "py_int (str_replace CHR '','' [] (str_strip (str_split CHR ''|'' ''| a | b | 1,234 |'' ! 3))) = Inr 1234"
    by code_simp
  moreover have "length (str_split CHR ''|'' ''| a | b | many |'') = 5" by code_simp
  moreover have "py_int (str_replace CHR '','' [] (str_strip (str_split CHR ''|'' ''| a | b | many |'' ! 3))) = Inl ValueError"
    by code_simp
  moreover have "length (str_split CHR ''|'' ''| a | b'') = 3" by code_simp
  ultimately show ?thesis
    using extract_stars_from_row_total [of "''| a | b | 1,234 |''"]
      extract_stars_from_row_total [of "''| a | b | many |''"]
      extract_stars_from_row_total [of "''| a | b''"]
    by simp
qed

lemma extract_stars_from_row_Inr: "\<exists>n. extract_stars_from_row row = Inr n"
  by (auto simp: extract_stars_from_row_def getitem_def Let_def
      split: sum.splits dest: py_int_error)

lemma row_description_length: "length (row_description r) \<le> 100"
  by (simp add: row_description_def Let_def)

lemma row_description_no_pipe: "CHR ''|'' \<notin> set (row_description r)"
proof -
  let ?d = "str_strip (str_replace CHR ''|'' ''-'' (case description r of None \<Rightarrow> [] | Some d \<Rightarrow> d))"
  have "CHR ''|'' \<notin> set ?d"
    using set_str_strip set_str_replace [of "CHR ''|''" "''-''"] by fastforce
  moreover have "set (take 97 ?d) \<subseteq> set ?d" by (rule set_take_subset)
  ultimately show ?thesis by (auto simp: row_description_def Let_def)
qed

text \<open>
  C5, as amended. The description \<^verbatim>\<open>build_table_row\<close> writes into a row is never
  longer than 100 characters and holds no pipe. The text that is measured is the
  description after its pipes are replaced and the white space around it is stripped:
  when that text is longer than 100 characters, the row holds its first 97 characters
  and three dots, otherwise the row holds it in full.
\<close>

theorem row_description_bounded:
  "length (row_description r) \<le> 100 \<and> CHR ''|'' \<notin> set (row_description r) \<and>
   (let d = str_strip (str_replace CHR ''|'' ''-'' (case description r of None \<Rightarrow> [] | Some d \<Rightarrow> d)) in
      (100 < length d \<longrightarrow> row_description r = take 97 d @ ''...'' \<and> length (row_description r) = 100) \<and>
      (length d \<le> 100 \<longrightarrow> row_description r = d)) \<and>
   build_table_row r =
     ''| ['' @ name r @ '']('' @ html_url r @ '') | '' @ row_description r @ '' | '' @
     str_int (stargazers_count r) @ '' |''"
  using row_description_length [of r] row_description_no_pipe [of r]
  by (simp add: row_description_def build_table_row_def Let_def)

theorem row_description_bounded_witness:
  "100 < length (str_strip (str_replace CHR ''|'' ''-'' (case description long_repo of None \<Rightarrow> [] | Some d \<Rightarrow> d))) \<and>
   row_description long_repo = replicate 60 CHR ''a'' @ ''-'' @ replicate 36 CHR ''b'' @ ''...'' \<and>
   length (row_description long_repo) = 100 \<and> CHR ''|'' \<notin> set (row_description long_repo)"
  using row_description_bounded [of long_repo]
  by (simp add: long_repo_def row_description_def str_replace_def str_strip_def is_space_def code_def Let_def)

text \<open>
  The claim as written measures the description the API returned. A description of 100
  letters and one trailing blank is longer than 100 characters, yet the blank is
  stripped before the test and the row holds the 100 letters, with no ellipsis.
\<close>

theorem source_description_longer_counterexample:
  "description padded_repo = Some (replicate 100 CHR ''a'' @ '' '') \<and>
   100 < length (replicate 100 CHR ''a'' @ '' '') \<and>
   row_description padded_repo = replicate 100 CHR ''a'' \<and>
   row_description padded_repo \<noteq> take 97 (replicate 100 CHR ''a'' @ '' '') @ ''...''"
  by code_simp

lemma update_row_stars_cases:
  "update_row_stars row m = row \<or>
   (\<exists>u r. re_search row = Some u \<and> m (canonical_url u) = Some r \<and> 5 \<le> length (str_split CHR ''|'' row) \<and>
      update_row_stars row m =
        str_join ''|'' ((str_split CHR ''|'' row)[3 := '' '' @ str_int (stargazers_count r) @ '' '']))"
  by (auto simp: update_row_stars_def Let_def split: option.splits)

lemma split_join_update:
  assumes "CHR ''|'' \<notin> set v"
  shows "str_split CHR ''|'' (str_join ''|'' ((str_split CHR ''|'' row)[i := v])) = (str_split CHR ''|'' row)[i := v]"
proof (rule str_split_join)
  show "(str_split CHR ''|'' row)[i := v] \<noteq> []" by simp
  show "\<forall>p\<in>set ((str_split CHR ''|'' row)[i := v]). CHR ''|'' \<notin> set p"
    using assms str_split_parts_no_sep set_update_subset_insert [of "str_split CHR ''|'' row" i v]
    by blast
qed

lemma update_row_stars_split:
  "str_split CHR ''|'' (update_row_stars row m) = str_split CHR ''|'' row \<or>
   (\<exists>u r. re_search row = Some u \<and> m (canonical_url u) = Some r \<and> 5 \<le> length (str_split CHR ''|'' row) \<and>
     str_split CHR ''|'' (update_row_stars row m) =
       (str_split CHR ''|'' row)[3 := '' '' @ str_int (stargazers_count r) @ '' ''])"
proof -
  have "CHR ''|'' \<notin> set ('' '' @ str_int n @ '' '')" for n
    by (simp add: str_int_no_pipe)
  then show ?thesis
    using update_row_stars_cases [of row m] split_join_update by metis
qed

text \<open>
  C3. When an existing row holds a repository URL whose canonical form is a key of the
  freshly fetched map, \<^verbatim>\<open>update_row_stars\<close> changes the star field at most: the row
  splits into as many pipe-separated fields as before, and every field but the one at
  index 3 (so the name link at index 1 and the description at index 2) is the one of
  the old row. With five fields or more the star field becomes the fresh count; with
  fewer the row is returned as it is.
\<close>

theorem update_row_stars_frame:
  assumes "re_search row = Some u" and "repos_by_url (canonical_url u) = Some r"
  shows "length (str_split CHR ''|'' (update_row_stars row repos_by_url)) = length (str_split CHR ''|'' row) \<and>
         (\<forall>i < length (str_split CHR ''|'' row). i \<noteq> 3 \<longrightarrow>
            str_split CHR ''|'' (update_row_stars row repos_by_url) ! i = str_split CHR ''|'' row ! i) \<and>
         (5 \<le> length (str_split CHR ''|'' row) \<longrightarrow>
            str_split CHR ''|'' (update_row_stars row repos_by_url) ! 3 = '' '' @ str_int (stargazers_count r) @ '' '') \<and>
         (length (str_split CHR ''|'' row) < 5 \<longrightarrow> update_row_stars row repos_by_url = row)"
proof -
  let ?parts = "str_split CHR ''|'' row"
  show ?thesis
  proof (cases "5 \<le> length ?parts")
    case True
    then have "update_row_stars row repos_by_url = str_join ''|'' (?parts[3 := '' '' @ str_int (stargazers_count r) @ '' ''])"
      using assms by (simp add: update_row_stars_def)
    moreover have "CHR ''|'' \<notin> set ('' '' @ str_int (stargazers_count r) @ '' '')"
      by (simp add: str_int_no_pipe)
    ultimately have "str_split CHR ''|'' (update_row_stars row repos_by_url) = ?parts[3 := '' '' @ str_int (stargazers_count r) @ '' '']"
      by (simp add: split_join_update)
    then show ?thesis using True by simp
  next
    case False
    then have "update_row_stars row repos_by_url = row"
      using assms by (simp add: update_row_stars_def)
    then show ?thesis using False by simp
  qed
qed

theorem update_row_stars_frame_witness:
  "re_search foo_row = Some ''https://github.com/a/foo'' \<and>
   [''https://github.com/a/foo'' \<mapsto> foo] (canonical_url ''https://github.com/a/foo'') = Some foo \<and>
   update_row_stars foo_row [''https://github.com/a/foo'' \<mapsto> foo] = ''| [foo](https://github.com/a/foo) | desc | 600 |'' \<and>
   str_split CHR ''|'' (update_row_stars foo_row [''https://github.com/a/foo'' \<mapsto> foo]) ! 1 = '' [foo](https://github.com/a/foo) '' \<and>
   str_split CHR ''|'' (update_row_stars foo_row [''https://github.com/a/foo'' \<mapsto> foo]) ! 2 = '' desc '' \<and>
   str_split CHR ''|'' (update_row_stars foo_row [''https://github.com/a/foo'' \<mapsto> foo]) ! 3 = '' 600 ''"
proof -
  have s: "re_search foo_row = Some ''https://github.com/a/foo''" by code_simp
  have c: "canonical_url ''https://github.com/a/foo'' = ''https://github.com/a/foo''" by code_simp
  have m: "[''https://github.com/a/foo'' \<mapsto> foo] (canonical_url ''https://github.com/a/foo'') = Some foo"
    by (simp add: c)
  have p: "str_split CHR ''|'' foo_row = ['''', '' [foo](https://github.com/a/foo) '', '' desc '', '' 500 '', '''']"
    by code_simp
  have n: "str_int (stargazers_count foo) = ''600''" by code_simp
  have u: "update_row_stars foo_row [''https://github.com/a/foo'' \<mapsto> foo] = ''| [foo](https://github.com/a/foo) | desc | 600 |''"
    by (simp add: update_row_stars_def s c p n)
  show ?thesis
    using update_row_stars_frame [where row = foo_row and repos_by_url = "[''https://github.com/a/foo'' \<mapsto> foo]", OF s m] s m u
    by (simp add: p n)
qed

subsection \<open>A run on the example\<close>

lemma example_run: "main example_get example_readme = Inr example_result"
  by code_simp

lemma example_search: "search_all example_get SEARCH_QUERIES [] = Inr [(''b/bar'', bar), (''a/foo'', foo)]"
  by code_simp

subsection \<open>Requests\<close>



lemma search_all_append:
  "search_all get (qs @ qs') all_repos =
     (case search_all get qs all_repos of Inl e \<Rightarrow> Inl e | Inr a \<Rightarrow> search_all get qs' a)"
  by (induction qs arbitrary: all_repos) (auto split: sum.splits)





subsection \<open>The filter\<close>

lemma filter_repos_fst:
  "fst (filter_repos ex all_repos new m) = new @ filter (is_new ex) (map snd all_repos)"
proof (induction all_repos arbitrary: new m)
  case Nil
  then show ?case by simp
next
  case (Cons p all_repos)
  obtain fn r where p: "p = (fn, r)" by (cases p)
  show ?case unfolding p by (simp add: Let_def Cons is_new_def)
qed

lemma filter_repos_dom:
  "dom (snd (filter_repos ex all_repos new m)) = dom m \<union> (\<lambda>p. canonical_url (html_url (snd p))) ` set all_repos"
proof (induction all_repos arbitrary: new m)
  case Nil
  then show ?case by simp
next
  case (Cons p all_repos)
  obtain fn r where p: "p = (fn, r)" by (cases p)
  show ?case unfolding p by (auto simp add: Let_def Cons)
qed

lemma main_Inr:
  assumes "main get readme_content = Inr res"
  obtains all_repos where
    "search_all get SEARCH_QUERIES [] = Inr all_repos"
    "new_repos res = sort_key (\<lambda>r. - stargazers_count r)
        (fst (filter_repos (parse_existing_entries readme_content) all_repos [] Map.empty))"
    "sort_rows (map (\<lambda>row. update_row_stars row
          (snd (filter_repos (parse_existing_entries readme_content) all_repos [] Map.empty)))
          (parse_table_rows readme_content) @ map build_table_row (new_repos res)) = Inr (all_rows res)"
    "new_readme res = slice_to readme_content (str_find readme_content MARKER_START) @
        new_section (all_rows res) @
        slice_from readme_content (str_find readme_content MARKER_END + int (length MARKER_END))"
  using assms
  by (auto simp: main_def Let_def split: sum.splits prod.splits)

text \<open>
  C1. A repository of the aggregated mapping is missing from the list of new
  repositories exactly when it is a fork, is archived, or its canonical URL is among
  the URLs read from the existing section. Missing or not, its canonical URL is a key
  of the mapping from which the star counts of the existing rows are refreshed.
\<close>

theorem new_repos_exclusion:
  assumes "main get readme_content = Inr res"
    and "search_all get SEARCH_QUERIES [] = Inr all_repos"
    and "(fn, r) \<in> set all_repos"
  shows "(r \<notin> set (new_repos res) \<longleftrightarrow>
           fork r \<or> archived r \<or> canonical_url (html_url r) \<in> parse_existing_entries readme_content) \<and>
         canonical_url (html_url r) \<in>
           dom (snd (filter_repos (parse_existing_entries readme_content) all_repos [] Map.empty))"
proof -
  from assms(1) obtain all_repos' where
    a: "search_all get SEARCH_QUERIES [] = Inr all_repos'" and
    n: "new_repos res = sort_key (\<lambda>r. - stargazers_count r)
        (fst (filter_repos (parse_existing_entries readme_content) all_repos' [] Map.empty))"
    by (rule main_Inr)
  from a assms(2) have "all_repos' = all_repos" by simp
  then have "set (new_repos res) = {x \<in> snd ` set all_repos. is_new (parse_existing_entries readme_content) x}"
    using n by (auto simp: filter_repos_fst)
  moreover have "r \<in> snd ` set all_repos" using assms(3) by force
  ultimately have "r \<in> set (new_repos res) \<longleftrightarrow> is_new (parse_existing_entries readme_content) r"
    by simp
  moreover have "canonical_url (html_url r) \<in>
      dom (snd (filter_repos (parse_existing_entries readme_content) all_repos [] Map.empty))"
    using assms(3) unfolding filter_repos_dom by force
  ultimately show ?thesis by (auto simp: is_new_def)
qed

theorem new_repos_exclusion_witness:
  "main example_get example_readme = Inr example_result \<and>
   search_all example_get SEARCH_QUERIES [] = Inr [(''b/bar'', bar), (''a/foo'', foo)] \<and>
   foo \<notin> set (new_repos example_result) \<and>
   canonical_url (html_url foo) \<in> parse_existing_entries example_readme \<and>
   bar \<in> set (new_repos example_result) \<and>
   \<not> (fork bar \<or> archived bar \<or> canonical_url (html_url bar) \<in> parse_existing_entries example_readme) \<and>
   canonical_url (html_url foo) \<in>
     dom (snd (filter_repos (parse_existing_entries example_readme) [(''b/bar'', bar), (''a/foo'', foo)] [] Map.empty))"
proof -
  have f: "(''a/foo'', foo) \<in> set [(''b/bar'', bar), (''a/foo'', foo)]" by simp
  have b: "(''b/bar'', bar) \<in> set [(''b/bar'', bar), (''a/foo'', foo)]" by simp
  have n: "new_repos example_result = [bar]" by (simp add: example_result_def)
  have d: "foo \<noteq> bar" by (simp add: foo_def bar_def)
  have nf: "\<not> fork foo" "\<not> archived foo" by (simp_all add: foo_def)
  note F = new_repos_exclusion [OF example_run example_search f]
  note B = new_repos_exclusion [OF example_run example_search b]
  have "foo \<notin> set (new_repos example_result)" "bar \<in> set (new_repos example_result)"
    using n d by simp_all
  then show ?thesis using F B nf example_run example_search by blast
qed


subsection \<open>Sorting\<close>

lemma extract_stars_of: "extract_stars_from_row row = Inr (stars_of row)"
  using extract_stars_from_row_Inr [of row] by (auto simp: stars_of_def)

lemma sort_keys_eq: "sort_keys rows = Inr (map stars_of rows)"
  by (induction rows) (simp_all add: extract_stars_of)

lemma insort_key_zip:
  assumes "\<forall>p \<in> set ps. fst p = f (snd p)"
  shows "map snd (insort_key (\<lambda>p. g (fst p)) (f x, x) ps) = insort_key (\<lambda>r. g (f r)) x (map snd ps)"
  using assms by (induction ps) auto

lemma set_insort_key_zip:
  assumes "\<forall>p \<in> set ps. fst p = f (snd p)"
  shows "\<forall>p \<in> set (insort_key k (f x, x) ps). fst p = f (snd p)"
  using assms by (auto simp: set_insort_key)

lemma sort_key_zip:
  "map snd (sort_key (\<lambda>p. g (fst p)) (zip (map f xs) xs)) = sort_key (\<lambda>r. g (f r)) xs \<and>
   (\<forall>p \<in> set (sort_key (\<lambda>p. g (fst p)) (zip (map f xs) xs)). fst p = f (snd p))"
proof (induction xs)
  case Nil
  then show ?case by simp
next
  case (Cons x xs)
  then show ?case by (simp add: insort_key_zip set_insort_key)
qed

lemma sort_rows_eq: "sort_rows rows = Inr (sort_key (\<lambda>r. - stars_of r) rows)"
  using sort_key_zip [of uminus stars_of rows] by (simp add: sort_rows_def sort_keys_eq)





subsection \<open>Writing the README\<close>





lemma rewritten_has_markers:
  "0 \<le> str_find (a @ new_section rows @ b) MARKER_START \<and>
   0 \<le> str_find (a @ new_section rows @ b) MARKER_END"
proof -
  let ?body = "[newline] @ table_header @ str_join [newline] rows @ [newline]"
  have "a @ new_section rows @ b = a @ MARKER_START @ (?body @ MARKER_END @ b)"
    by (simp add: new_section_def)
  moreover have "a @ new_section rows @ b = (a @ MARKER_START @ ?body) @ MARKER_END @ b"
    by (simp add: new_section_def)
  ultimately show ?thesis using str_find_occurs by metis
qed

text \<open>
  C10. When a marker is missing from the README, both extraction functions return
  empty containers, and a run that reaches its end still writes the file: \<^verbatim>\<open>find\<close>
  returns \<open>-1\<close> for the missing marker, so with the start marker missing the text kept
  in front of the new section is the README without its last character, and with the
  end marker missing the text kept behind it is the README without its first 21
  characters. The text written is never the text read.
\<close>

theorem missing_marker_still_rewrites:
  assumes "str_find readme_content MARKER_START = - 1 \<or> str_find readme_content MARKER_END = - 1"
    and "main get readme_content = Inr res"
  shows "parse_existing_entries readme_content = {} \<and>
         parse_table_rows readme_content = [] \<and>
         new_readme res = slice_to readme_content (str_find readme_content MARKER_START) @
           new_section (all_rows res) @
           slice_from readme_content (str_find readme_content MARKER_END + int (length MARKER_END)) \<and>
         (str_find readme_content MARKER_START = - 1 \<longrightarrow>
            slice_to readme_content (str_find readme_content MARKER_START) = butlast readme_content) \<and>
         (str_find readme_content MARKER_END = - 1 \<longrightarrow>
            slice_from readme_content (str_find readme_content MARKER_END + int (length MARKER_END)) =
              drop 21 readme_content) \<and>
         new_readme res \<noteq> readme_content"
proof -
  from assms(2) have w: "new_readme res = slice_to readme_content (str_find readme_content MARKER_START) @
        new_section (all_rows res) @
        slice_from readme_content (str_find readme_content MARKER_END + int (length MARKER_END))"
    by (rule main_Inr)
  have 1: "parse_existing_entries readme_content = {}"
    using assms(1) by (auto simp: parse_existing_entries_def)
  have 2: "parse_table_rows readme_content = []"
    using assms(1) by (auto simp: parse_table_rows_def)
  have 3: "str_find readme_content MARKER_START = - 1 \<longrightarrow>
            slice_to readme_content (str_find readme_content MARKER_START) = butlast readme_content"
    by (simp add: slice_to_minus_one)
  have "slice_from readme_content (- 1 + int (length MARKER_END)) = drop 21 readme_content"
    using slice_from_nat [of readme_content 21] by (simp add: MARKER_END_def)
  then have 4: "str_find readme_content MARKER_END = - 1 \<longrightarrow>
            slice_from readme_content (str_find readme_content MARKER_END + int (length MARKER_END)) =
              drop 21 readme_content"
    by simp
  have "0 \<le> str_find (new_readme res) MARKER_START \<and> 0 \<le> str_find (new_readme res) MARKER_END"
    unfolding w by (rule rewritten_has_markers)
  then have 5: "new_readme res \<noteq> readme_content"
    using assms(1) by auto
  show ?thesis using w 1 2 3 4 5 by blast
qed

theorem missing_marker_still_rewrites_witness:
  "str_find ''hello'' MARKER_START = - 1 \<and>
   main example_get ''hello'' = Inr no_marker_result \<and>
   parse_existing_entries ''hello'' = {} \<and> parse_table_rows ''hello'' = [] \<and>
   new_readme no_marker_result = ''hell'' @ new_section (all_rows no_marker_result) \<and>
   new_readme no_marker_result \<noteq> ''hello''"
proof -
  have s: "str_find ''hello'' MARKER_START = - 1" by code_simp
  have e: "str_find ''hello'' MARKER_END = - 1" by code_simp
  have m: "main example_get ''hello'' = Inr no_marker_result" by code_simp
  have b: "butlast ''hello'' = ''hell''" by simp
  from s have "str_find ''hello'' MARKER_START = - 1 \<or> str_find ''hello'' MARKER_END = - 1" by simp
  note T = missing_marker_still_rewrites [OF this m]
  have 1: "parse_existing_entries ''hello'' = {}" and 2: "parse_table_rows ''hello'' = []"
    and 3: "new_readme no_marker_result \<noteq> ''hello''"
    using T by blast+
  have 4: "slice_to ''hello'' (str_find ''hello'' MARKER_START) = butlast ''hello''"
    using T s by blast
  have 5: "slice_from ''hello'' (str_find ''hello'' MARKER_END + int (length MARKER_END)) = drop 21 ''hello''"
    using T e by blast
  have 6: "new_readme no_marker_result = slice_to ''hello'' (str_find ''hello'' MARKER_START) @
      new_section (all_rows no_marker_result) @
      slice_from ''hello'' (str_find ''hello'' MARKER_END + int (length MARKER_END))"
    using T by blast
  have "new_readme no_marker_result = ''hell'' @ new_section (all_rows no_marker_result)"
    unfolding 6 4 5 by simp
  then show ?thesis using s m 1 2 3 by blast
qed

subsection \<open>The aggregated mapping\<close>

lemma add_repos_keyed: "keyed all_repos \<Longrightarrow> keyed (add_repos all_repos repos)"
proof (induction repos arbitrary: all_repos)
  case Nil
  then show ?case by simp
next
  case (Cons r repos)
  have "keyed (if map_of all_repos (str_lower (full_name r)) = None
                then all_repos @ [(str_lower (full_name r), r)] else all_repos)"
    using Cons.prems by (auto simp: keyed_def map_of_eq_None_iff)
  then show ?case using Cons.IH by (simp add: Let_def)
qed

lemma search_all_keyed:
  "keyed all_repos \<Longrightarrow> search_all get queries all_repos = Inr result \<Longrightarrow> keyed result"
  by (induction queries arbitrary: all_repos) (auto split: sum.splits intro: add_repos_keyed)

lemma map_snd_keys:
  "\<forall>p \<in> set xs. fst p = g (snd p) \<Longrightarrow> map g (map snd xs) = map fst xs"
  by (induction xs) auto

lemma keyed_distinct_names:
  assumes "keyed all_repos"
  shows "distinct (map (\<lambda>r. str_lower (full_name r)) (filter P (map snd all_repos)))"
proof -
  have "map (\<lambda>r. str_lower (full_name r)) (map snd all_repos) = map fst all_repos"
    using assms unfolding keyed_def by (intro map_snd_keys) simp
  moreover have "distinct (map fst all_repos)" using assms by (simp add: keyed_def)
  ultimately have "distinct (map (\<lambda>r. str_lower (full_name r)) (map snd all_repos))"
    by (simp only:)
  then show ?thesis by (rule distinct_map_filter)
qed

lemma distinct_map_sort_key: "distinct (map f (sort_key k xs)) \<longleftrightarrow> distinct (map f xs)"
  by (simp add: distinct_map)

text \<open>
  C7, as amended. A run adds a row only for a repository whose canonical URL is not in
  the set read from the existing section, and the repositories it adds have pairwise
  different lower-case full names. The rows of the new section are the existing rows,
  each one refreshed, and one row for each added repository: rows already in the
  section are never removed, whatever URLs they share.
\<close>

theorem new_rows_not_listed_and_distinct:
  assumes "main get readme_content = Inr res"
  shows "distinct (map (\<lambda>r. str_lower (full_name r)) (new_repos res)) \<and>
         (\<forall>r \<in> set (new_repos res). canonical_url (html_url r) \<notin> parse_existing_entries readme_content) \<and>
         (\<exists>repos_by_url. sort_rows (map (\<lambda>row. update_row_stars row repos_by_url) (parse_table_rows readme_content) @
              map build_table_row (new_repos res)) = Inr (all_rows res)) \<and>
         length (all_rows res) = length (parse_table_rows readme_content) + length (new_repos res)"
proof -
  from assms obtain all_repos where
    a: "search_all get SEARCH_QUERIES [] = Inr all_repos" and
    n: "new_repos res = sort_key (\<lambda>r. - stargazers_count r)
        (fst (filter_repos (parse_existing_entries readme_content) all_repos [] Map.empty))" and
    s: "sort_rows (map (\<lambda>row. update_row_stars row
          (snd (filter_repos (parse_existing_entries readme_content) all_repos [] Map.empty)))
          (parse_table_rows readme_content) @ map build_table_row (new_repos res)) = Inr (all_rows res)"
    by (rule main_Inr)
  have "keyed []" by (simp add: keyed_def)
  then have k: "keyed all_repos" using a by (rule search_all_keyed)
  have 1: "distinct (map (\<lambda>r. str_lower (full_name r)) (new_repos res))"
    unfolding n distinct_map_sort_key filter_repos_fst using keyed_distinct_names [OF k] by simp
  have 2: "\<forall>r \<in> set (new_repos res). canonical_url (html_url r) \<notin> parse_existing_entries readme_content"
    unfolding n by (simp add: filter_repos_fst is_new_def)
  from s have "all_rows res = sort_key (\<lambda>r. - stars_of r)
      (map (\<lambda>row. update_row_stars row
          (snd (filter_repos (parse_existing_entries readme_content) all_repos [] Map.empty)))
          (parse_table_rows readme_content) @ map build_table_row (new_repos res))"
    by (simp add: sort_rows_eq)
  then have "length (all_rows res) = length (map (\<lambda>row. update_row_stars row
          (snd (filter_repos (parse_existing_entries readme_content) all_repos [] Map.empty)))
          (parse_table_rows readme_content) @ map build_table_row (new_repos res))"
    by (simp only: length_sort)
  then have 4: "length (all_rows res) = length (parse_table_rows readme_content) + length (new_repos res)"
    by simp
  show ?thesis using 1 2 s 4 by blast
qed

lemma dup_run: "main plain_get dup_readme = Inr dup_result"
  by code_simp

theorem new_rows_not_listed_and_distinct_witness:
  "main plain_get dup_readme = Inr dup_result \<and>
   new_repos dup_result = [bar] \<and>
   canonical_url (html_url bar) \<notin> parse_existing_entries dup_readme \<and>
   length (all_rows dup_result) = length (parse_table_rows dup_readme) + length (new_repos dup_result)"
proof -
  have n: "new_repos dup_result = [bar]" by (simp add: dup_result_def)
  then have "bar \<in> set (new_repos dup_result)" by simp
  then show ?thesis using new_rows_not_listed_and_distinct [OF dup_run] dup_run n by blast
qed

text \<open>
  The claim as written fails on a README that lists one repository in two rows: the run
  keeps both rows, so the same canonical URL is found in two rows of the new section.
\<close>

theorem duplicate_rows_kept_counterexample:
  "main plain_get dup_readme = Inr dup_result \<and>
   length (all_rows dup_result) = 3 \<and>
   ''https://github.com/a/foo'' \<in> canonical_url ` set (finditer (all_rows dup_result ! 1)) \<and>
   ''https://github.com/a/foo'' \<in> canonical_url ` set (finditer (all_rows dup_result ! 2))"
  by code_simp

subsection \<open>Two runs\<close>


lemma sorted_desc_map_uminus: "sorted_wrt (\<ge>) (map f xs) \<Longrightarrow> sorted (map (\<lambda>r. - f r) xs)" for f :: "'a \<Rightarrow> int"
  by (induction xs) auto











end
